theory Spec2Isabelle
  imports Complex_Main "HOL-Library.AList"
begin

section \<open>Hand histories: cards, evaluated hands and their comparison\<close>

text \<open>
  The development follows \<^verbatim>\<open>lib/ppn/utils/handhistory.py\<close>. Python exceptions are
  values of the type \<open>error\<close>; a function that can raise returns \<open>error + 'a\<close>.
\<close>

datatype error = KeyError | IndexError | AttributeError | TypeError | InvalidOperation

datatype rank = Rank (rank_name: string) (rank_abbreviation: string)

datatype suit = Suit (suit_name: string) (suit_abbreviation: string)

datatype card =
    Card (card_rank: rank) (card_suit: suit)
  | Upcard (card_rank: rank) (card_suit: suit)
  | Downcard (card_rank: rank) (card_suit: suit)

definition RankAce :: rank where "RankAce = Rank ''Ace'' ''A''"
definition RankKing :: rank where "RankKing = Rank ''King'' ''K''"
definition RankQueen :: rank where "RankQueen = Rank ''Queen'' ''Q''"
definition RankJack :: rank where "RankJack = Rank ''Jack'' ''J''"
definition RankTen :: rank where "RankTen = Rank ''Ten'' ''T''"
definition RankNine :: rank where "RankNine = Rank ''Nine'' ''9''"
definition RankEight :: rank where "RankEight = Rank ''Eight'' ''8''"
definition RankSeven :: rank where "RankSeven = Rank ''Seven'' ''7''"
definition RankSix :: rank where "RankSix = Rank ''Six'' ''6''"
definition RankFive :: rank where "RankFive = Rank ''Five'' ''5''"
definition RankFour :: rank where "RankFour = Rank ''Four'' ''4''"
definition RankThree :: rank where "RankThree = Rank ''Three'' ''3''"
definition RankTwo :: rank where "RankTwo = Rank ''Two'' ''2''"

definition SuitClubs :: suit where "SuitClubs = Suit ''clubs'' ''c''"
definition SuitDiamonds :: suit where "SuitDiamonds = Suit ''diamonds'' ''d''"
definition SuitHearts :: suit where "SuitHearts = Suit ''hearts'' ''h''"
definition SuitSpades :: suit where "SuitSpades = Suit ''spades'' ''s''"

text \<open>
  The classes of evaluated hands. \<open>HighHand\<close> is the base class of the nine high
  categories (it is instantiated directly only for the sentinel of the showdown code);
  \<open>LowHand\<close> is the single low class.
\<close>

datatype hand_class =
    HighHand | StraightFlush | FourOfAKind | FullHouse | Flush | Straight
  | ThreeOfAKind | TwoPair | OnePair | HighCard | LowHand

record hand =
  hand_class :: hand_class
  cards :: "card list"
  pokereval_ranking :: int

text \<open>
  \<^verbatim>\<open>HighHand.is_better_than\<close> compares with \<open>>\<close>, \<^verbatim>\<open>LowHand.is_better_than\<close> with
  \<open><\<close>; the method is chosen by the class of the receiver. Both classes define
  \<^verbatim>\<open>__eq__\<close> as equality of the rankings.
\<close>

definition HighHand_is_better_than :: "hand \<Rightarrow> hand \<Rightarrow> bool" where
  "HighHand_is_better_than self other_hand \<longleftrightarrow>
     pokereval_ranking self > pokereval_ranking other_hand"

definition LowHand_is_better_than :: "hand \<Rightarrow> hand \<Rightarrow> bool" where
  "LowHand_is_better_than self other_hand \<longleftrightarrow>
     pokereval_ranking self < pokereval_ranking other_hand"

definition is_better_than :: "hand \<Rightarrow> hand \<Rightarrow> bool" where
  "is_better_than self other_hand =
     (if hand_class self = LowHand then LowHand_is_better_than self other_hand
      else HighHand_is_better_than self other_hand)"

definition is_worse_than :: "hand \<Rightarrow> hand \<Rightarrow> bool" where
  "is_worse_than self other_hand \<longleftrightarrow> \<not> is_better_than self other_hand"

definition hand_eq :: "hand \<Rightarrow> hand \<Rightarrow> bool" where
  "hand_eq self other_hand \<longleftrightarrow> pokereval_ranking self = pokereval_ranking other_hand"

definition hand_ne :: "hand \<Rightarrow> hand \<Rightarrow> bool" where
  "hand_ne self other_hand \<longleftrightarrow> \<not> hand_eq self other_hand"

subsection \<open>Descriptions of hands\<close>

text \<open>
  \<^verbatim>\<open>str.format\<close> on the templates of the hand classes. A template is kept as its
  pieces: literal text, a positional field \<^verbatim>\<open>{n}\<close> and a keyword field \<^verbatim>\<open>{name}\<close>.
  A positional field beyond the positional arguments raises IndexError, a keyword field
  that was not supplied raises KeyError; fields are filled from left to right.
\<close>

datatype piece = Lit string | Pos nat | Key string

fun str_format :: "piece list \<Rightarrow> string list \<Rightarrow> (string \<times> string) list \<Rightarrow> error + string" where
  "str_format [] args kwargs = Inr []"
| "str_format (Lit s # ps) args kwargs =
     (case str_format ps args kwargs of Inl e \<Rightarrow> Inl e | Inr r \<Rightarrow> Inr (s @ r))"
| "str_format (Pos n # ps) args kwargs =
     (if n < length args
      then (case str_format ps args kwargs of Inl e \<Rightarrow> Inl e | Inr r \<Rightarrow> Inr (args ! n @ r))
      else Inl IndexError)"
| "str_format (Key k # ps) args kwargs =
     (case map_of kwargs k of
        None \<Rightarrow> Inl KeyError
      | Some v \<Rightarrow> (case str_format ps args kwargs of Inl e \<Rightarrow> Inl e | Inr r \<Rightarrow> Inr (v @ r)))"

text \<open>\<^verbatim>\<open>self.cards[i].rank.name\<close>: indexing past the end raises IndexError.\<close>

definition card_rank_name :: "card list \<Rightarrow> nat \<Rightarrow> error + string" where
  "card_rank_name cs i = (if i < length cs then Inr (rank_name (card_rank (cs ! i))) else Inl IndexError)"

definition StraightFlush_str :: "card list \<Rightarrow> error + string" where
  "StraightFlush_str cs =
     (if 0 < length cs then
        (if card_rank (cs ! 0) = RankAce then Inr ''a Royal Flush''
         else (case card_rank_name cs 4 of Inl e \<Rightarrow> Inl e | Inr low_rank \<Rightarrow>
               (case card_rank_name cs 0 of Inl e \<Rightarrow> Inl e | Inr high_rank \<Rightarrow>
                  str_format [Lit ''a straight flush, '', Key ''low_rank'', Lit '' to '', Key ''high_rank'']
                    [] [(''low_rank'', low_rank), (''high_rank'', high_rank)])))
      else Inl IndexError)"

definition FourOfAKind_str :: "card list \<Rightarrow> error + string" where
  "FourOfAKind_str cs =
     (case card_rank_name cs 0 of Inl e \<Rightarrow> Inl e | Inr r0 \<Rightarrow>
        str_format [Lit ''four of a kind, '', Pos 0, Lit ''s''] [r0] [])"

definition FullHouse_str :: "card list \<Rightarrow> error + string" where
  "FullHouse_str cs =
     (case card_rank_name cs 0 of Inl e \<Rightarrow> Inl e | Inr rank_one \<Rightarrow>
      (case card_rank_name cs 3 of Inl e \<Rightarrow> Inl e | Inr rank_two \<Rightarrow>
         str_format [Lit ''a full house, '', Pos 0, Lit ''s full of '', Pos 0, Lit ''s'']
           [] [(''rank_one'', rank_one), (''rank_two'', rank_two)]))"

definition Flush_str :: "card list \<Rightarrow> error + string" where
  "Flush_str cs =
     (case card_rank_name cs 0 of Inl e \<Rightarrow> Inl e | Inr r0 \<Rightarrow>
        str_format [Lit ''a flush, '', Pos 0, Lit '' high''] [r0] [])"

definition Straight_str :: "card list \<Rightarrow> error + string" where
  "Straight_str cs =
     (case card_rank_name cs 4 of Inl e \<Rightarrow> Inl e | Inr low_rank \<Rightarrow>
      (case card_rank_name cs 0 of Inl e \<Rightarrow> Inl e | Inr high_rank \<Rightarrow>
         str_format [Lit ''a straight, '', Key ''low_rank'', Lit '' to '', Key ''high_rank'']
           [] [(''low_rank'', low_rank), (''high_rank'', high_rank)]))"

definition ThreeOfAKind_str :: "card list \<Rightarrow> error + string" where
  "ThreeOfAKind_str cs =
     (case card_rank_name cs 0 of Inl e \<Rightarrow> Inl e | Inr r0 \<Rightarrow>
        str_format [Lit ''three of a kind, '', Pos 1, Lit ''s''] [r0] [])"

definition TwoPair_str :: "card list \<Rightarrow> error + string" where
  "TwoPair_str cs =
     (case card_rank_name cs 0 of Inl e \<Rightarrow> Inl e | Inr r0 \<Rightarrow>
      (case card_rank_name cs 2 of Inl e \<Rightarrow> Inl e | Inr r1 \<Rightarrow>
         str_format [Lit ''two pair, '', Pos 0, Lit ''s and '', Pos 1, Lit ''s''] [r0, r1] []))"

definition OnePair_str :: "card list \<Rightarrow> error + string" where
  "OnePair_str cs =
     (case card_rank_name cs 0 of Inl e \<Rightarrow> Inl e | Inr r0 \<Rightarrow>
        str_format [Lit ''a pair of '', Pos 0, Lit ''s''] [r0] [])"

definition HighCard_str :: "card list \<Rightarrow> error + string" where
  "HighCard_str cs =
     (case card_rank_name cs 0 of Inl e \<Rightarrow> Inl e | Inr r0 \<Rightarrow>
        str_format [Lit ''high card '', Pos 0] [r0] [])"

fun join :: "string \<Rightarrow> string list \<Rightarrow> string" where
  "join sep [] = []"
| "join sep [x] = x"
| "join sep (x # y # ys) = x @ sep @ join sep (y # ys)"

definition LowHand_str :: "card list \<Rightarrow> error + string" where
  "LowHand_str cs = Inr (join '','' (map (\<lambda>c. rank_abbreviation (card_rank c)) cs))"


section \<open>Betting structures\<close>

datatype Limit = FIXED_LIMIT | POT_LIMIT | NO_LIMIT

record BettingStructure =
  limit :: Limit
  small_blind :: int
  big_blind :: int

subsection \<open>The decimal arithmetic of \<^verbatim>\<open>amount_string_to_int\<close>\<close>

text \<open>
  \<^verbatim>\<open>int(Decimal(amount_string)*scale_factor)\<close>. A \<^verbatim>\<open>Decimal\<close> is a sign, a coefficient
  and an exponent. The constructor is modelled on plain unsigned numerals
  (\<^verbatim>\<open>12\<close>, \<^verbatim>\<open>1.50\<close>, \<^verbatim>\<open>.25\<close>, \<^verbatim>\<open>3.\<close>), the only strings the pattern of
  \<^verbatim>\<open>parse_betting_structure\<close> can hand over; every other string is reported as
  \<open>InvalidOperation\<close> (signs, exponents and special values are not modelled).
  The product is rounded to the 28 significant digits of the default context, half to
  even; the exponent limits of the context (nine decimal digits) are not modelled.
  \<^verbatim>\<open>int\<close> truncates towards zero.
\<close>

definition is_digit :: "char \<Rightarrow> bool" where
  "is_digit c \<longleftrightarrow> c \<in> set ''0123456789''"

definition digit_val :: "char \<Rightarrow> nat" where
  "digit_val c = of_char c - 48"

definition nat_of_digits :: "string \<Rightarrow> nat" where
  "nat_of_digits ds = foldl (\<lambda>n c. 10 * n + digit_val c) 0 ds"

record decimal =
  dec_sign :: bool
  dec_int :: nat
  dec_exp :: int

definition Decimal :: "string \<Rightarrow> error + decimal" where
  "Decimal s =
     (let intpart = takeWhile is_digit s; rest = dropWhile is_digit s in
      if rest = [] then
        (if intpart = [] then Inl InvalidOperation
         else Inr \<lparr>dec_sign = False, dec_int = nat_of_digits intpart, dec_exp = 0\<rparr>)
      else if hd rest = CHR ''.'' \<and> list_all is_digit (tl rest) \<and> (intpart \<noteq> [] \<or> tl rest \<noteq> [])
      then Inr \<lparr>dec_sign = False, dec_int = nat_of_digits (intpart @ tl rest),
                dec_exp = - int (length (tl rest))\<rparr>
      else Inl InvalidOperation)"

definition Decimal_of_int :: "int \<Rightarrow> decimal" where
  "Decimal_of_int n = \<lparr>dec_sign = (n < 0), dec_int = nat \<bar>n\<bar>, dec_exp = 0\<rparr>"

fun ndigits :: "nat \<Rightarrow> nat" where
  "ndigits n = (if n < 10 then 1 else Suc (ndigits (n div 10)))"

declare ndigits.simps [simp del]

definition prec :: nat where
  "prec = 28"

definition dec_fix :: "decimal \<Rightarrow> decimal" where
  "dec_fix d =
     (let c = dec_int d; n = ndigits c in
      if c = 0 \<or> n \<le> prec then d
      else
        (let k = n - prec; q = c div 10 ^ k; r = c mod 10 ^ k; half = 5 * 10 ^ (k - 1);
             q' = (if half < r \<or> (r = half \<and> odd q) then q + 1 else q)
         in d\<lparr>dec_int := q', dec_exp := dec_exp d + int k\<rparr>))"

definition dec_mul :: "decimal \<Rightarrow> decimal \<Rightarrow> decimal" where
  "dec_mul a b =
     dec_fix \<lparr>dec_sign = (dec_sign a \<noteq> dec_sign b), dec_int = dec_int a * dec_int b,
              dec_exp = dec_exp a + dec_exp b\<rparr>"

definition dec_to_int :: "decimal \<Rightarrow> int" where
  "dec_to_int d =
     (let m = (if 0 \<le> dec_exp d then int (dec_int d) * 10 ^ nat (dec_exp d)
               else int (dec_int d div 10 ^ nat (- dec_exp d)))
      in if dec_sign d then - m else m)"

definition amount_string_to_int :: "string \<Rightarrow> int \<Rightarrow> error + int" where
  "amount_string_to_int amount_string scale_factor =
     (case Decimal amount_string of
        Inl e \<Rightarrow> Inl e
      | Inr d \<Rightarrow> Inr (dec_to_int (dec_mul d (Decimal_of_int scale_factor))))"

subsection \<open>The pattern of \<^verbatim>\<open>parse_betting_structure\<close>\<close>

text \<open>
  \<^verbatim>\<open>re.match(r'(ante-)?([0-9]?\.?[0-9]+)-([0-9]?\.?[0-9]+)-(.+)', s)\<close>. Each part of
  the pattern is a function from the remaining input to the list of its possible
  matches (the matched text and what is left), in the order in which the backtracking
  matcher tries them: an optional part first with, then without its text; a greedy
  repetition from the longest to the shortest. The match is the first element of the
  composed list; \<^verbatim>\<open>re.match\<close> anchors at the start only, and \<^verbatim>\<open>.\<close> does not match a
  newline.
\<close>

definition opt_lit :: "string \<Rightarrow> string \<Rightarrow> (string \<times> string) list" where
  "opt_lit l s = (if take (length l) s = l then [(l, drop (length l) s)] else []) @ [([], s)]"

definition opt_digit :: "string \<Rightarrow> (string \<times> string) list" where
  "opt_digit s = (case s of c # r \<Rightarrow> (if is_digit c then [([c], r)] else []) | [] \<Rightarrow> []) @ [([], s)]"

definition opt_dot :: "string \<Rightarrow> (string \<times> string) list" where
  "opt_dot s = (case s of c # r \<Rightarrow> (if c = CHR ''.'' then [([c], r)] else []) | [] \<Rightarrow> []) @ [([], s)]"

definition greedy1 :: "(char \<Rightarrow> bool) \<Rightarrow> string \<Rightarrow> (string \<times> string) list" where
  "greedy1 P s =
     map (\<lambda>n. (take n s, drop n s)) (rev [1 ..< Suc (length (takeWhile P s))])"

definition digits1 :: "string \<Rightarrow> (string \<times> string) list" where
  "digits1 s = greedy1 is_digit s"

definition any1 :: "string \<Rightarrow> (string \<times> string) list" where
  "any1 s = greedy1 (\<lambda>c. c \<noteq> CHR 0x0A) s"

definition dash :: "string \<Rightarrow> string list" where
  "dash s = (case s of c # r \<Rightarrow> (if c = CHR ''-'' then [r] else []) | [] \<Rightarrow> [])"

definition amount_re :: "string \<Rightarrow> (string \<times> string) list" where
  "amount_re s =
     concat (map (\<lambda>(a, r1). concat (map (\<lambda>(b, r2). map (\<lambda>(c, r3). (a @ b @ c, r3)) (digits1 r2))
        (opt_dot r1))) (opt_digit s))"

definition betting_structure_re :: "string \<Rightarrow> (string \<times> string \<times> string) list" where
  "betting_structure_re s =
     concat (map (\<lambda>(ante, r0).
       concat (map (\<lambda>(small, r1).
         concat (map (\<lambda>r2.
           concat (map (\<lambda>(big, r3).
             concat (map (\<lambda>r4.
               map (\<lambda>(kw, r5). (small, big, kw)) (any1 r4))
             (dash r3)))
           (amount_re r2)))
         (dash r1)))
       (amount_re r0)))
     (opt_lit ''ante-'' s))"

definition LIMIT_MAP :: "string \<Rightarrow> Limit option" where
  "LIMIT_MAP = map_of [(''limit'', FIXED_LIMIT), (''no-limit'', NO_LIMIT), (''pot-limit'', POT_LIMIT)]"

text \<open>
  A string the pattern does not match makes \<^verbatim>\<open>re.match\<close> return \<^verbatim>\<open>None\<close>, and the call
  of \<^verbatim>\<open>.groups()\<close> raises AttributeError; a limit keyword outside \<open>LIMIT_MAP\<close> raises
  KeyError.
\<close>

definition parse_betting_structure :: "string \<Rightarrow> error + BettingStructure" where
  "parse_betting_structure betting_structure =
     (case betting_structure_re betting_structure of
        [] \<Rightarrow> Inl AttributeError
      | (small, big, kw) # _ \<Rightarrow>
          (case LIMIT_MAP kw of
             None \<Rightarrow> Inl KeyError
           | Some l \<Rightarrow>
               (case amount_string_to_int small 100 of
                  Inl e \<Rightarrow> Inl e
                | Inr sb \<Rightarrow>
                    (case amount_string_to_int big 100 of
                       Inl e \<Rightarrow> Inl e
                     | Inr bb \<Rightarrow> Inr \<lparr>limit = l, small_blind = sb, big_blind = bb\<rparr>))))"


section \<open>Engine events, narrative events and the context\<close>

record Player =
  player_id :: int
  name :: string
  seat_number :: int
  chips :: int

record BestHands =
  high :: "hand option"
  low :: "hand option"

text \<open>
  A dictionary is an association list in the order in which it is iterated; lookup is
  \<open>map_of\<close>. \<open>winners\<close> is the \<^verbatim>\<open>serial2share\<close> dictionary of the resolve record.
\<close>

record ResolvedPot =
  pot_amount :: int
  eligible_players :: "int list"
  winners :: "(int \<times> int) list"

text \<open>
  The amount of a "collected" event is whatever the caller passes: the integer share
  of a winner, or, for a \<^verbatim>\<open>left_over\<close> record, the list literal \<^verbatim>\<open>['chips_left']\<close>
  that the source passes (line 1114).
\<close>

datatype pyvalue = PyInt int | PyStrList "string list"

datatype generic_event =
    HandStarted int int string BettingStructure "Player list"
  | PlayerPostedSmallBlind int int
  | PlayerPostedBigBlind int int
  | PlayerPostedBigAndSmallBlinds int int int
  | PlayerPostedAnte int int
  | CardsDealtToPlayer int "card list"
  | PreflopRoundStarted
  | FlopDealt "card list"
  | TurnDealt card
  | RiverDealt card
  | Showdown
  | PlayerCalled int int
  | PlayerChecked int
  | PlayerFolded int
  | PlayerRaised int int int
  | PlayerWentAllIn int
  | UncalledBetReturnedToPlayer int int
  | PlayerShowedHand int "card list" "hand option" "hand option"
  | PlayerMuckedHand int "card list" "hand option" "hand option"
  | PlayerCollectedFromSidePot int pyvalue int
  | PlayerCollectedFromMainPot int pyvalue
  | HandCanceled
  | HandEnded "ResolvedPot list" "(int \<times> int) list"

text \<open>
  The fields are in the order of the namedtuple declarations (lines 1340 to 1382):
  \<open>PlayerPostedBigAndSmallBlinds player_id big_blind_amount small_blind_amount\<close>,
  \<open>PlayerRaised player_id by_amount to_amount\<close>,
  \<open>PlayerCollectedFromSidePot player_id amount side_pot_index\<close>,
  \<open>HandEnded pots player_rake\<close>.

  A \<^verbatim>\<open>Context\<close> object starts without attributes; reading an attribute that was never
  set raises AttributeError, so every attribute is optional.
\<close>

record Context =
  context_player_names :: "(int \<times> string) list option"
  context_hand_timestamp :: "int option"
  context_small_blind :: "int option"
  context_big_blind :: "int option"
  context_player_cards :: "(int \<times> card list) list option"

text \<open>
  The dictionaries of a showdown stack. A key that a dictionary does not have is
  \<open>None\<close>, and reading it raises KeyError. The first dictionary of a stack is read with
  the keys of a \<^verbatim>\<open>game_state\<close>, the others with the keys of their \<^verbatim>\<open>type\<close>. \<open>'h\<close> is
  the engine's encoding of a best hand, \<open>'p\<close> its encoding of a set of cards.
\<close>

record side_pots_dict =
  d_pots :: "int list list option"

record 'h showdown_dict =
  d_type :: "string option"
  d_serial2best :: "(int \<times> (string \<times> 'h) list) list option"
  d_side_pots :: "side_pots_dict option"
  d_serial2rake :: "(int \<times> int) list option"
  d_serials :: "int list option"
  d_pot :: "int option"
  d_serial2share :: "(int \<times> int) list option"
  d_serial :: "int option"
  d_uncalled :: "int option"
  d_chips_left :: "int option"



section \<open>The adapter from raw records: \<^verbatim>\<open>PokerEngineEventGenerator\<close>\<close>






section \<open>The normalizer: \<^verbatim>\<open>GenericPokerEventGenerator\<close>\<close>

text \<open>
  The generator carries its two converters. A handler is a Python generator: its result
  is the list of the events it yields, the exception that ended it (if any), and the
  context as it left it. Events yielded before an exception have been delivered.
\<close>

record ('p, 'h) GenericPokerEventGenerator =
  pokercards_converter :: "'p \<Rightarrow> error + card list"
  pokereval_best_hand_converter :: "'h \<Rightarrow> error + hand option"

type_synonym result = "generic_event list \<times> error option \<times> Context"

fun make_players :: "Context \<Rightarrow> (int \<times> int) list \<Rightarrow> nat \<Rightarrow> int list \<Rightarrow> error + Player list" where
  "make_players context player_chips n [] = Inr []"
| "make_players context player_chips n (pid # rest) =
     (case context_player_names context of
        None \<Rightarrow> Inl AttributeError
      | Some names \<Rightarrow>
          (case map_of names pid of
             None \<Rightarrow> Inl KeyError
           | Some nm \<Rightarrow>
               (case map_of player_chips pid of
                  None \<Rightarrow> Inl KeyError
                | Some c \<Rightarrow>
                    (case make_players context player_chips (Suc n) rest of
                       Inl e \<Rightarrow> Inl e
                     | Inr ps \<Rightarrow>
                         Inr (\<lparr>player_id = pid, name = nm, seat_number = int n, chips = c\<rparr> # ps)))))"

definition handle_GameEvent ::
    "int \<Rightarrow> string \<Rightarrow> string \<Rightarrow> int list \<Rightarrow> (int \<times> int) list \<Rightarrow> Context \<Rightarrow> result" where
  "handle_GameEvent hand_id variant betting_structure players player_chips context =
     (case make_players context player_chips 0 players of
        Inl e \<Rightarrow> ([], Some e, context)
      | Inr ps \<Rightarrow>
          (case parse_betting_structure betting_structure of
             Inl e \<Rightarrow> ([], Some e, context)
           | Inr bs \<Rightarrow>
               (let context' = context\<lparr>context_small_blind := Some (small_blind bs),
                                       context_big_blind := Some (big_blind bs)\<rparr>
                in case context_hand_timestamp context' of
                     None \<Rightarrow> ([], Some AttributeError, context')
                   | Some ts \<Rightarrow> ([HandStarted hand_id ts variant bs ps], None, context'))))"

fun dealt_cards_events ::
    "('p \<Rightarrow> error + card list) \<Rightarrow> (int \<times> 'p) list \<Rightarrow> generic_event list \<times> error option" where
  "dealt_cards_events conv [] = ([], None)"
| "dealt_cards_events conv ((pid, cs) # rest) =
     (case conv cs of
        Inl e \<Rightarrow> ([], Some e)
      | Inr cs' \<Rightarrow>
          (case dealt_cards_events conv rest of (es, err) \<Rightarrow> (CardsDealtToPlayer pid cs' # es, err)))"

definition round_events :: "string \<Rightarrow> card list \<Rightarrow> generic_event list \<times> error option" where
  "round_events round_name community_cards =
     (if round_name = ''pre-flop'' then ([PreflopRoundStarted], None)
      else if round_name = ''flop'' then ([FlopDealt community_cards], None)
      else if round_name = ''turn'' then
        (if community_cards = [] then ([], Some IndexError)
         else ([TurnDealt (last community_cards)], None))
      else if round_name = ''river'' then
        (if community_cards = [] then ([], Some IndexError)
         else ([RiverDealt (last community_cards)], None))
      else ([], None))"

definition handle_RoundEvent ::
    "('p, 'h) GenericPokerEventGenerator \<Rightarrow> string \<Rightarrow> 'p \<Rightarrow> (int \<times> 'p) list option \<Rightarrow> Context \<Rightarrow> result" where
  "handle_RoundEvent self round_name community_cards dealt_cards context =
     (case pokercards_converter self community_cards of
        Inl e \<Rightarrow> ([], Some e, context)
      | Inr cc \<Rightarrow>
          (case round_events round_name cc of
             (es, Some e) \<Rightarrow> (es, Some e, context)
           | (es, None) \<Rightarrow>
               (case dealt_cards of
                  None \<Rightarrow> (es, None, context)
                | Some dealt \<Rightarrow>
                    (case dealt_cards_events (pokercards_converter self) dealt of
                       (es', err) \<Rightarrow> (es @ es', err, context)))))"

text \<open>
  \<^verbatim>\<open>handle_BlindEvent\<close> (lines 953 to 965). \<^verbatim>\<open>and\<close> and \<^verbatim>\<open>or\<close> evaluate their
  right operand only when needed, so \<^verbatim>\<open>context.big_blind\<close> is read only on the paths
  that reach it. The amounts are integers and \<^verbatim>\<open>/\<close> is the floor division of Python 2.
\<close>

definition blind_after_first :: "int \<Rightarrow> int \<Rightarrow> int \<Rightarrow> Context \<Rightarrow> result" where
  "blind_after_first pid blind_amount sb context =
     (if blind_amount = sb then ([PlayerPostedSmallBlind pid blind_amount], None, context)
      else
        (case context_big_blind context of
           None \<Rightarrow> ([], Some AttributeError, context)
         | Some bb \<Rightarrow>
             if blind_amount \<le> bb div 2 then ([PlayerPostedSmallBlind pid blind_amount], None, context)
             else if blind_amount \<le> bb then ([PlayerPostedBigBlind pid blind_amount], None, context)
             else ([], None, context)))"

definition handle_BlindEvent :: "int \<Rightarrow> int \<Rightarrow> int \<Rightarrow> Context \<Rightarrow> result" where
  "handle_BlindEvent pid blind_amount dead_amount context =
     (case context_small_blind context of
        None \<Rightarrow> ([], Some AttributeError, context)
      | Some sb \<Rightarrow>
          if dead_amount = sb then
            (case context_big_blind context of
               None \<Rightarrow> ([], Some AttributeError, context)
             | Some bb \<Rightarrow>
                 if blind_amount = bb
                 then ([PlayerPostedBigAndSmallBlinds pid blind_amount dead_amount], None, context)
                 else blind_after_first pid blind_amount sb context)
          else blind_after_first pid blind_amount sb context)"







text \<open>
  \<^verbatim>\<open>handle_ShowdownEvent\<close> (lines 989 to 994): the dictionary comprehension converts
  the cards of every player, then the result replaces \<^verbatim>\<open>context.player_cards\<close>.
\<close>

fun convert_player_cards ::
    "('p \<Rightarrow> error + card list) \<Rightarrow> (int \<times> 'p) list \<Rightarrow> (int \<times> card list) list
      \<Rightarrow> error + (int \<times> card list) list" where
  "convert_player_cards conv [] acc = Inr acc"
| "convert_player_cards conv ((pid, cs) # rest) acc =
     (case conv cs of
        Inl e \<Rightarrow> Inl e
      | Inr cs' \<Rightarrow> convert_player_cards conv rest (AList.update pid cs' acc))"

definition handle_ShowdownEvent ::
    "('p, 'h) GenericPokerEventGenerator \<Rightarrow> (int \<times> 'p) list \<Rightarrow> Context \<Rightarrow> result" where
  "handle_ShowdownEvent self player_cards context =
     (case convert_player_cards (pokercards_converter self) player_cards [] of
        Inl e \<Rightarrow> ([], Some e, context)
      | Inr pc \<Rightarrow>
          (if 1 < length player_cards then [Showdown] else [], None,
           context\<lparr>context_player_cards := Some pc\<rparr>))"

definition handle_CanceledEvent :: "int \<Rightarrow> int \<Rightarrow> Context \<Rightarrow> result" where
  "handle_CanceledEvent pid returned_amount context =
     ([HandCanceled, UncalledBetReturnedToPlayer pid returned_amount], None, context)"


section \<open>End of hand: \<^verbatim>\<open>handle_EndEvent\<close>\<close>

subsection \<open>\<^verbatim>\<open>get_best_hands\<close>\<close>

fun convert_hands ::
    "('h \<Rightarrow> error + hand option) \<Rightarrow> (string \<times> 'h) list \<Rightarrow> hand option \<Rightarrow> hand option
      \<Rightarrow> error + BestHands" where
  "convert_hands conv [] high_hand low_hand = Inr \<lparr>high = high_hand, low = low_hand\<rparr>"
| "convert_hands conv ((hand_type, pokereval_best_hand) # rest) high_hand low_hand =
     (case conv pokereval_best_hand of
        Inl e \<Rightarrow> Inl e
      | Inr h \<Rightarrow>
          if hand_type = ''hi'' then convert_hands conv rest h low_hand
          else if hand_type = ''low'' then convert_hands conv rest high_hand h
          else convert_hands conv rest high_hand low_hand)"

fun best_hands_loop ::
    "('h \<Rightarrow> error + hand option) \<Rightarrow> (int \<times> (string \<times> 'h) list) list \<Rightarrow> (int \<times> BestHands) list
      \<Rightarrow> error + (int \<times> BestHands) list" where
  "best_hands_loop conv [] best_hands = Inr best_hands"
| "best_hands_loop conv ((pid, hands) # rest) best_hands =
     (case convert_hands conv hands None None of
        Inl e \<Rightarrow> Inl e
      | Inr bh \<Rightarrow> best_hands_loop conv rest (AList.update pid bh best_hands))"

definition get_best_hands ::
    "('p, 'h) GenericPokerEventGenerator \<Rightarrow> 'h showdown_dict
      \<Rightarrow> error + (int \<times> BestHands) list option" where
  "get_best_hands self end_state =
     (case d_serial2best end_state of
        None \<Rightarrow> Inr None
      | Some s2b \<Rightarrow>
          (case best_hands_loop (pokereval_best_hand_converter self) s2b [] of
             Inl e \<Rightarrow> Inl e
           | Inr bh \<Rightarrow> Inr (Some bh)))"

subsection \<open>\<^verbatim>\<open>player_should_show\<close>\<close>

text \<open>
  \<^verbatim>\<open>hand and hand.is_better_than(best) or hand == best\<close>. A hand object is a
  two-field tuple and therefore true. For an absent hand the left operand of \<^verbatim>\<open>or\<close>
  is \<^verbatim>\<open>None\<close>, and \<^verbatim>\<open>None == best\<close> runs the \<^verbatim>\<open>__eq__\<close> of \<^verbatim>\<open>best\<close> with \<^verbatim>\<open>None\<close> as
  the other hand, whose \<^verbatim>\<open>pokereval_ranking\<close> does not exist: AttributeError.
\<close>

definition player_has_best_hand :: "hand option \<Rightarrow> hand \<Rightarrow> error + bool" where
  "player_has_best_hand h best =
     (case h of
        None \<Rightarrow> Inl AttributeError
      | Some h' \<Rightarrow> Inr (is_better_than h' best \<or> hand_eq h' best))"

definition player_should_show ::
    "int set \<Rightarrow> int \<Rightarrow> BestHands \<Rightarrow> hand \<Rightarrow> hand \<Rightarrow> error + bool" where
  "player_should_show players_that_showed pid player_hands best_high_hand best_low_hand =
     (if pid \<in> players_that_showed then Inr False
      else
        (case player_has_best_hand (high player_hands) best_high_hand of
           Inl e \<Rightarrow> Inl e
         | Inr True \<Rightarrow> Inr True
         | Inr False \<Rightarrow> player_has_best_hand (low player_hands) best_low_hand))"

subsection \<open>\<^verbatim>\<open>resolved_pot_events\<close>\<close>

text \<open>
  The two sets of the closure and the deque of resolved pots are the state of the
  traversal. \<^verbatim>\<open>sys.maxint\<close> is that of a 64-bit build.
\<close>

record showdown_state =
  pots :: "ResolvedPot list"
  players_that_showed :: "int set"
  players_that_mucked :: "int set"

type_synonym showdown_result = "generic_event list \<times> error option \<times> showdown_state"

definition sys_maxint :: int where
  "sys_maxint = 2 ^ 63 - 1"

definition best_high_hand :: hand where
  "best_high_hand = \<lparr>hand_class = HighHand, cards = [], pokereval_ranking = - 1\<rparr>"

definition best_low_hand :: hand where
  "best_low_hand = \<lparr>hand_class = LowHand, cards = [], pokereval_ranking = sys_maxint\<rparr>"

definition player_cards_of :: "Context \<Rightarrow> int \<Rightarrow> error + card list" where
  "player_cards_of context pid =
     (case context_player_cards context of
        None \<Rightarrow> Inl AttributeError
      | Some pc \<Rightarrow> (case map_of pc pid of None \<Rightarrow> Inl KeyError | Some cs \<Rightarrow> Inr cs))"

definition emit :: "generic_event \<Rightarrow> showdown_result \<Rightarrow> showdown_result" where
  "emit ev r = (case r of (es, err, st) \<Rightarrow> (ev # es, err, st))"

fun show_or_muck ::
    "Context \<Rightarrow> (int \<times> BestHands) list \<Rightarrow> int list \<Rightarrow> showdown_state \<Rightarrow> showdown_result" where
  "show_or_muck context best_hands [] st = ([], None, st)"
| "show_or_muck context best_hands (pid # rest) st =
     (case map_of best_hands pid of
        None \<Rightarrow> ([], Some KeyError, st)
      | Some player_hands \<Rightarrow>
          (case player_should_show (players_that_showed st) pid player_hands
                  best_high_hand best_low_hand of
             Inl e \<Rightarrow> ([], Some e, st)
           | Inr True \<Rightarrow>
               (case player_cards_of context pid of
                  Inl e \<Rightarrow> ([], Some e, st)
                | Inr cs \<Rightarrow>
                    emit (PlayerShowedHand pid cs (high player_hands) (low player_hands))
                      (show_or_muck context best_hands rest
                         (st\<lparr>players_that_showed := insert pid (players_that_showed st)\<rparr>)))
           | Inr False \<Rightarrow>
               if pid \<notin> players_that_mucked st then
                 (case player_cards_of context pid of
                    Inl e \<Rightarrow> ([], Some e, st)
                  | Inr cs \<Rightarrow>
                      emit (PlayerMuckedHand pid cs (high player_hands) (low player_hands))
                        (show_or_muck context best_hands rest
                           (st\<lparr>players_that_mucked := insert pid (players_that_mucked st)\<rparr>)))
               else show_or_muck context best_hands rest st))"

text \<open>
  \<^verbatim>\<open>if best_hands:\<close> is false for \<^verbatim>\<open>None\<close> and for an empty dictionary. The second
  loop yields one "collected" event for every pair of \<^verbatim>\<open>pot.winners\<close>.
\<close>

definition resolved_pot_events ::
    "Context \<Rightarrow> ResolvedPot \<Rightarrow> (int \<times> BestHands) list option \<Rightarrow> (int \<Rightarrow> pyvalue \<Rightarrow> generic_event)
      \<Rightarrow> showdown_state \<Rightarrow> showdown_result" where
  "resolved_pot_events context pot best_hands player_collected_from_pot st =
     (case (case best_hands of
              None \<Rightarrow> ([], None, st)
            | Some bh \<Rightarrow> if bh = [] then ([], None, st)
                         else show_or_muck context bh (eligible_players pot) st) of
        (es, Some e, st') \<Rightarrow> (es, Some e, st')
      | (es, None, st') \<Rightarrow>
          (es @ map (\<lambda>(pid, won_amount). player_collected_from_pot pid (PyInt won_amount))
                  (winners pot), None, st'))"

subsection \<open>The traversal of the showdown stack\<close>

definition get_player_rake :: "'h showdown_dict \<Rightarrow> error + (int \<times> int) list" where
  "get_player_rake end_state =
     (case d_serial2rake end_state of
        None \<Rightarrow> Inl KeyError
      | Some rake \<Rightarrow> Inr (fold (\<lambda>(playerid, rake_amount). AList.update playerid rake_amount) rake []))"

definition resolved_pot :: "'h showdown_dict \<Rightarrow> error + ResolvedPot" where
  "resolved_pot resolve_pot_event =
     (case d_serials resolve_pot_event of
        None \<Rightarrow> Inl KeyError
      | Some eligible \<Rightarrow>
          (case d_pot resolve_pot_event of
             None \<Rightarrow> Inl KeyError
           | Some amount \<Rightarrow>
               (case d_serial2share resolve_pot_event of
                  None \<Rightarrow> Inl KeyError
                | Some shares \<Rightarrow>
                    Inr \<lparr>pot_amount = amount, eligible_players = eligible, winners = shares\<rparr>)))"

definition player_collected_from_pot :: "int \<Rightarrow> int \<Rightarrow> int \<Rightarrow> pyvalue \<Rightarrow> generic_event" where
  "player_collected_from_pot main_pot_index side_pot_index =
     (if side_pot_index = main_pot_index then (\<lambda>pid amount. PlayerCollectedFromMainPot pid amount)
      else (\<lambda>pid amount. PlayerCollectedFromSidePot pid amount side_pot_index))"

text \<open>
  One turn of the loop over \<^verbatim>\<open>event.showdown_stack[1:]\<close> (lines 1093 to 1114). The
  amount passed for a \<^verbatim>\<open>left_over\<close> record is the list literal \<^verbatim>\<open>['chips_left']\<close>.
\<close>

definition stack_step ::
    "Context \<Rightarrow> (int \<times> BestHands) list option \<Rightarrow> int \<Rightarrow> 'h showdown_dict \<Rightarrow> showdown_state
      \<Rightarrow> showdown_result" where
  "stack_step context best_hands main_pot_index event st =
     (let side_pot_index = int (length (pots st));
          collected = player_collected_from_pot main_pot_index side_pot_index
      in case d_type event of
           None \<Rightarrow> ([], Some KeyError, st)
         | Some event_type \<Rightarrow>
             if event_type = ''resolve'' then
               (case resolved_pot event of
                  Inl e \<Rightarrow> ([], Some e, st)
                | Inr pot \<Rightarrow>
                    (case resolved_pot_events context pot best_hands collected st of
                       (es, Some e, st') \<Rightarrow> (es, Some e, st')
                     | (es, None, st') \<Rightarrow> (es, None, st'\<lparr>pots := pot # pots st'\<rparr>)))
             else if event_type = ''uncalled'' then
               (case d_serial event of
                  None \<Rightarrow> ([], Some KeyError, st)
                | Some pid \<Rightarrow>
                    (case d_uncalled event of
                       None \<Rightarrow> ([], Some KeyError, st)
                     | Some amount \<Rightarrow> ([UncalledBetReturnedToPlayer pid amount], None, st)))
             else if event_type = ''left_over'' then
               (case d_serial event of
                  None \<Rightarrow> ([], Some KeyError, st)
                | Some pid \<Rightarrow> ([collected pid (PyStrList [''chips_left''])], None, st))
             else ([], None, st))"

fun stack_loop ::
    "Context \<Rightarrow> (int \<times> BestHands) list option \<Rightarrow> int \<Rightarrow> 'h showdown_dict list \<Rightarrow> showdown_state
      \<Rightarrow> showdown_result" where
  "stack_loop context best_hands main_pot_index [] st = ([], None, st)"
| "stack_loop context best_hands main_pot_index (event # rest) st =
     (case stack_step context best_hands main_pot_index event st of
        (es, Some e, st') \<Rightarrow> (es, Some e, st')
      | (es, None, st') \<Rightarrow>
          (case stack_loop context best_hands main_pot_index rest st' of
             (es', err, st'') \<Rightarrow> (es @ es', err, st'')))"

definition handle_EndEvent ::
    "('p, 'h) GenericPokerEventGenerator \<Rightarrow> 'h showdown_dict list \<Rightarrow> Context \<Rightarrow> result" where
  "handle_EndEvent self showdown_stack context =
     (case showdown_stack of
        [] \<Rightarrow> ([], Some IndexError, context)
      | end_state # rest \<Rightarrow>
          (case get_best_hands self end_state of
             Inl e \<Rightarrow> ([], Some e, context)
           | Inr best_hands \<Rightarrow>
               (case d_side_pots end_state of
                  None \<Rightarrow> ([], Some KeyError, context)
                | Some side_pots \<Rightarrow>
                    (case d_pots side_pots of
                       None \<Rightarrow> ([], Some KeyError, context)
                     | Some ps \<Rightarrow>
                         (let num_pots = int (length ps);
                              main_pot_index = num_pots - 1
                          in case stack_loop context best_hands main_pot_index rest
                                    \<lparr>pots = [], players_that_showed = {}, players_that_mucked = {}\<rparr> of
                               (es, Some e, st) \<Rightarrow> (es, Some e, context)
                             | (es, None, st) \<Rightarrow>
                                 (case get_player_rake end_state of
                                    Inl e \<Rightarrow> (es, Some e, context)
                                  | Inr player_rake \<Rightarrow>
                                      (es @ [HandEnded (pots st) player_rake], None, context)))))))"

section \<open>Dispatch: \<^verbatim>\<open>Generator.generate_from_event\<close> and \<^verbatim>\<open>generate\<close>\<close>







section \<open>Notions used by the properties\<close>

text \<open>
  The decision order of the blind classification as the specification words it
  (section 4.1), with "at most half the configured big blind" read over the reals.
\<close>

definition blind_classification :: "int \<Rightarrow> int \<Rightarrow> int \<Rightarrow> int \<Rightarrow> int \<Rightarrow> generic_event list" where
  "blind_classification pid posted dead small big =
     (if dead = small \<and> posted = big then [PlayerPostedBigAndSmallBlinds pid posted dead]
      else if posted = small \<or> real_of_int posted \<le> real_of_int big / 2
        then [PlayerPostedSmallBlind pid posted]
      else if posted \<le> big then [PlayerPostedBigBlind pid posted]
      else [])"




fun is_showed :: "generic_event \<Rightarrow> bool" where
  "is_showed (PlayerShowedHand _ _ _ _) = True"
| "is_showed _ = False"

fun is_mucked :: "generic_event \<Rightarrow> bool" where
  "is_mucked (PlayerMuckedHand _ _ _ _) = True"
| "is_mucked _ = False"

fun is_collected :: "generic_event \<Rightarrow> bool" where
  "is_collected (PlayerCollectedFromSidePot _ _ _) = True"
| "is_collected (PlayerCollectedFromMainPot _ _) = True"
| "is_collected _ = False"

fun is_uncalled :: "generic_event \<Rightarrow> bool" where
  "is_uncalled (UncalledBetReturnedToPlayer _ _) = True"
| "is_uncalled _ = False"

fun is_hand_ended :: "generic_event \<Rightarrow> bool" where
  "is_hand_ended (HandEnded _ _) = True"
| "is_hand_ended _ = False"

definition is_resolve :: "'h showdown_dict \<Rightarrow> bool" where
  "is_resolve event \<longleftrightarrow> d_type event = Some ''resolve''"

text \<open>
  Well-formed input of \<^verbatim>\<open>handle_EndEvent\<close>: every key that the traversal reads is
  there. With best hands, every eligible player of a pot has an entry among them and
  among the hole cards of the context, and the comparison of the entry with the two
  sentinels does not raise (it raises when it reaches a hand that is absent).
\<close>

definition can_show_or_muck :: "Context \<Rightarrow> (int \<times> BestHands) list \<Rightarrow> int \<Rightarrow> bool" where
  "can_show_or_muck context best_hands pid =
     (case map_of best_hands pid of
        None \<Rightarrow> False
      | Some player_hands \<Rightarrow>
          (case player_should_show {} pid player_hands best_high_hand best_low_hand of
             Inl e \<Rightarrow> False
           | Inr b \<Rightarrow> (case player_cards_of context pid of Inl e \<Rightarrow> False | Inr cs \<Rightarrow> True)))"

definition well_formed_record ::
    "Context \<Rightarrow> (int \<times> BestHands) list option \<Rightarrow> 'h showdown_dict \<Rightarrow> bool" where
  "well_formed_record context best_hands event =
     (case d_type event of
        None \<Rightarrow> False
      | Some event_type \<Rightarrow>
          if event_type = ''resolve'' then
            (case d_serials event of
               None \<Rightarrow> False
             | Some eligible \<Rightarrow>
                 d_pot event \<noteq> None \<and> d_serial2share event \<noteq> None \<and>
                 (case best_hands of
                    None \<Rightarrow> True
                  | Some bh \<Rightarrow> bh = [] \<or> list_all (can_show_or_muck context bh) eligible))
          else if event_type = ''uncalled'' then d_serial event \<noteq> None \<and> d_uncalled event \<noteq> None
          else if event_type = ''left_over'' then d_serial event \<noteq> None
          else True)"

definition well_formed_stack ::
    "('p, 'h) GenericPokerEventGenerator \<Rightarrow> Context \<Rightarrow> 'h showdown_dict list \<Rightarrow> bool" where
  "well_formed_stack self context showdown_stack =
     (case showdown_stack of
        [] \<Rightarrow> False
      | end_state # rest \<Rightarrow>
          (case get_best_hands self end_state of
             Inl e \<Rightarrow> False
           | Inr best_hands \<Rightarrow>
               (case d_side_pots end_state of
                  None \<Rightarrow> False
                | Some side_pots \<Rightarrow> d_pots side_pots \<noteq> None) \<and>
               d_serial2rake end_state \<noteq> None \<and>
               list_all (well_formed_record context best_hands) rest))"

subsection \<open>Sample inputs\<close>

text \<open>
  A generator whose converters are identities, as the test doubles of the repository
  are: cards and best hands arrive already converted.
\<close>

definition identity_generator :: "(card list, hand) GenericPokerEventGenerator" where
  "identity_generator =
     \<lparr>pokercards_converter = Inr, pokereval_best_hand_converter = Inr \<circ> Some\<rparr>"

definition empty_dict :: "hand showdown_dict" where
  "empty_dict =
     \<lparr>d_type = None, d_serial2best = None, d_side_pots = None, d_serial2rake = None,
      d_serials = None, d_pot = None, d_serial2share = None, d_serial = None,
      d_uncalled = None, d_chips_left = None\<rparr>"

definition empty_context :: Context where
  "empty_context =
     \<lparr>context_player_names = None, context_hand_timestamp = None, context_small_blind = None,
      context_big_blind = None, context_player_cards = None\<rparr>"

definition blinds_context :: Context where
  "blinds_context = empty_context\<lparr>context_small_blind := Some 10, context_big_blind := Some 25\<rparr>"

definition high_card :: "int \<Rightarrow> hand" where
  "high_card r = \<lparr>hand_class = HighCard, cards = [], pokereval_ranking = r\<rparr>"

text \<open>
  The End event of \<^verbatim>\<open>test_generate_events_from_EndEvent\<close>: one pot, two players at
  the showdown, player 23 wins.
\<close>

definition hole_cards :: "int \<Rightarrow> card list" where
  "hole_cards pid =
     (if pid = 21 then [Downcard RankSeven SuitClubs, Downcard RankTwo SuitDiamonds]
      else if pid = 22 then [Downcard RankNine SuitHearts, Downcard RankSix SuitHearts]
      else [Downcard RankQueen SuitSpades, Downcard RankJack SuitHearts])"

definition showdown_context :: Context where
  "showdown_context =
     empty_context\<lparr>context_player_cards :=
       Some [(21, hole_cards 21), (22, hole_cards 22), (23, hole_cards 23)]\<rparr>"

definition test_state :: "hand showdown_dict" where
  "test_state =
     empty_dict\<lparr>d_type := Some ''game_state'',
       d_serial2best := Some [(22, [(''hi'', high_card 694100)]), (23, [(''hi'', high_card 694117)])],
       d_side_pots := Some \<lparr>d_pots = Some [[50, 50]]\<rparr>,
       d_serial2rake := Some [(23, 0)], d_pot := Some 50, d_serial2share := Some [(23, 50)]\<rparr>"

definition test_record :: "hand showdown_dict" where
  "test_record =
     empty_dict\<lparr>d_type := Some ''resolve'', d_serials := Some [23, 22], d_pot := Some 50,
       d_serial2share := Some [(23, 50)], d_chips_left := Some 0\<rparr>"

text \<open>
  A hand with two pots and three players at the showdown: all three are eligible for
  pot 0, players 22 and 23 also for pot 1 (the last pot, which the traversal treats as
  the main pot); player 23 has the best hand and wins both.
\<close>

definition two_pot_state :: "hand showdown_dict" where
  "two_pot_state =
     empty_dict\<lparr>d_type := Some ''game_state'',
       d_serial2best := Some [(21, [(''hi'', high_card 694023)]), (22, [(''hi'', high_card 694100)]),
                              (23, [(''hi'', high_card 694117)])],
       d_side_pots := Some \<lparr>d_pots = Some [[60, 60], [40, 100]]\<rparr>,
       d_serial2rake := Some [(23, 0)], d_pot := Some 100, d_serial2share := Some [(23, 100)]\<rparr>"

definition pot0_record :: "hand showdown_dict" where
  "pot0_record =
     empty_dict\<lparr>d_type := Some ''resolve'', d_serials := Some [21, 22, 23], d_pot := Some 60,
       d_serial2share := Some [(23, 60)], d_chips_left := Some 0\<rparr>"

definition pot1_record :: "hand showdown_dict" where
  "pot1_record =
     empty_dict\<lparr>d_type := Some ''resolve'', d_serials := Some [22, 23], d_pot := Some 40,
       d_serial2share := Some [(23, 40)], d_chips_left := Some 0\<rparr>"

text \<open>
  A hand won by a fold, as in \<^verbatim>\<open>HandHistoryIntegrationTests\<close>, here with an uncalled
  bet returned to the winner; and a showdown of two equal hands that split a pot of 51
  chips, with one chip left over.
\<close>

definition foldwin_state :: "hand showdown_dict" where
  "foldwin_state =
     empty_dict\<lparr>d_type := Some ''game_state'', d_side_pots := Some \<lparr>d_pots = Some [[24, 24]]\<rparr>,
       d_serial2rake := Some [(23, 0)]\<rparr>"

definition uncalled_record :: "hand showdown_dict" where
  "uncalled_record = empty_dict\<lparr>d_type := Some ''uncalled'', d_serial := Some 23, d_uncalled := Some 13\<rparr>"

definition foldwin_record :: "hand showdown_dict" where
  "foldwin_record =
     empty_dict\<lparr>d_type := Some ''resolve'', d_serials := Some [23], d_pot := Some 24,
       d_serial2share := Some [(23, 24)]\<rparr>"

definition split_state :: "hand showdown_dict" where
  "split_state =
     empty_dict\<lparr>d_type := Some ''game_state'',
       d_serial2best := Some [(22, [(''hi'', high_card 694100)]), (23, [(''hi'', high_card 694100)])],
       d_side_pots := Some \<lparr>d_pots = Some [[51, 51]]\<rparr>,
       d_serial2rake := Some [(22, 0), (23, 0)]\<rparr>"

definition split_record :: "hand showdown_dict" where
  "split_record =
     empty_dict\<lparr>d_type := Some ''resolve'', d_serials := Some [22, 23], d_pot := Some 51,
       d_serial2share := Some [(22, 25), (23, 25)], d_chips_left := Some 1\<rparr>"

definition left_over_record :: "hand showdown_dict" where
  "left_over_record =
     empty_dict\<lparr>d_type := Some ''left_over'', d_serial := Some 22, d_chips_left := Some 1\<rparr>"


section \<open>Properties\<close>

lemmas end_defs =
  handle_EndEvent_def get_best_hands_def stack_step_def resolved_pot_def
  resolved_pot_events_def player_should_show_def player_has_best_hand_def is_better_than_def
  HighHand_is_better_than_def LowHand_is_better_than_def hand_eq_def best_high_hand_def
  best_low_hand_def player_cards_of_def emit_def get_player_rake_def
  player_collected_from_pot_def

subsection \<open>Comparison of hands\<close>

text \<open>
  Claim C5. A high hand is better than another hand exactly when its ranking is
  strictly greater, a low hand exactly when its ranking is strictly less; two hands are
  equal exactly when their rankings are equal; and neither comparison depends on the
  cards the hands carry.
\<close>

theorem hand_comparison_by_rank:
  "(hand_class h1 \<noteq> LowHand \<longrightarrow>
      (is_better_than h1 h2 \<longleftrightarrow> pokereval_ranking h1 > pokereval_ranking h2))
   \<and> (hand_class h1 = LowHand \<longrightarrow>
      (is_better_than h1 h2 \<longleftrightarrow> pokereval_ranking h1 < pokereval_ranking h2))
   \<and> (hand_eq h1 h2 \<longleftrightarrow> pokereval_ranking h1 = pokereval_ranking h2)
   \<and> hand_eq (h1\<lparr>cards := cs1\<rparr>) (h2\<lparr>cards := cs2\<rparr>) = hand_eq h1 h2
   \<and> is_better_than (h1\<lparr>cards := cs1\<rparr>) (h2\<lparr>cards := cs2\<rparr>) = is_better_than h1 h2"
  by (simp add: is_better_than_def HighHand_is_better_than_def LowHand_is_better_than_def
      hand_eq_def)

theorem hand_comparison_by_rank_witness:
  "is_better_than (high_card 7) (high_card 5) \<and> \<not> is_better_than (high_card 5) (high_card 7)
   \<and> is_better_than (best_low_hand\<lparr>pokereval_ranking := 5\<rparr>) best_low_hand
   \<and> hand_eq (high_card 5) (best_low_hand\<lparr>pokereval_ranking := 5\<rparr>)"
  using hand_comparison_by_rank [of "high_card 7" "high_card 5"]
    hand_comparison_by_rank [of "high_card 5" "high_card 7"]
    hand_comparison_by_rank [of "best_low_hand\<lparr>pokereval_ranking := 5\<rparr>" best_low_hand]
    hand_comparison_by_rank [of "high_card 5" "best_low_hand\<lparr>pokereval_ranking := 5\<rparr>"]
  by (simp add: high_card_def best_low_hand_def sys_maxint_def)

subsection \<open>Descriptions of hands\<close>

text \<open>
  The descriptions that the tests of the formatter expect.
\<close>

lemma Flush_str_test:
  "Flush_str [Card RankJack SuitClubs, Card RankTen SuitClubs, Card RankSeven SuitClubs,
     Card RankSix SuitClubs, Card RankFour SuitClubs] = Inr ''a flush, Jack high''"
  by (simp add: Flush_str_def card_rank_name_def RankJack_def)

lemma OnePair_LowHand_str_test:
  "OnePair_str [Card RankTen SuitClubs, Card RankTen SuitDiamonds, Card RankKing SuitSpades,
     Card RankSix SuitClubs, Card RankFour SuitClubs] = Inr ''a pair of Tens''
   \<and> LowHand_str [Card RankSeven SuitSpades, Card RankSix SuitDiamonds, Card RankFour SuitHearts,
     Card RankThree SuitHearts, Card RankAce SuitClubs] = Inr ''7,6,4,3,A''"
  by (simp add: OnePair_str_def LowHand_str_def card_rank_name_def RankTen_def RankSeven_def
      RankSix_def RankFour_def RankThree_def RankAce_def)

text \<open>
  Claim C10. The description of a FullHouse and of a ThreeOfAKind raises an error for
  every list of cards: the template of FullHouse has the positional field 0 and gets
  keyword arguments only, the template of ThreeOfAKind has the positional field 1 and
  gets one argument. (With fewer cards than the arguments read, the indexing of the
  cards raises the same IndexError before.)
\<close>

theorem FullHouse_ThreeOfAKind_str_raise:
  "FullHouse_str cs = Inl IndexError \<and> ThreeOfAKind_str cs = Inl IndexError"
  by (simp add: FullHouse_str_def ThreeOfAKind_str_def card_rank_name_def)

subsection \<open>Blind classification\<close>

text \<open>
  Claim C2. With the small and the big blind configured in the context, the handler of
  a Blind event yields the events of the decision order of the specification, at most
  one, raises nothing and leaves the context as it is: big-and-small blinds when the
  dead amount is the small blind and the posted amount the big blind; else small blind
  when the posted amount is the small blind or at most half the big blind; else big
  blind when the posted amount is at most the big blind; else nothing. With small 10
  and big 25: posted 10 dead 0 is a small blind, posted 25 dead 10 big-and-small,
  posted 25 dead 0 a big blind, posted 12 dead 0 a small blind.
\<close>

theorem handle_BlindEvent_classification:
  "context_small_blind context = Some small \<and> context_big_blind context = Some big \<longrightarrow>
     handle_BlindEvent pid posted dead context =
       (blind_classification pid posted dead small big, None, context)
     \<and> length (blind_classification pid posted dead small big) \<le> 1
     \<and> (small = 10 \<and> big = 25 \<longrightarrow>
          handle_BlindEvent pid 10 0 context = ([PlayerPostedSmallBlind pid 10], None, context)
        \<and> handle_BlindEvent pid 25 10 context =
            ([PlayerPostedBigAndSmallBlinds pid 25 10], None, context)
        \<and> handle_BlindEvent pid 25 0 context = ([PlayerPostedBigBlind pid 25], None, context)
        \<and> handle_BlindEvent pid 12 0 context = ([PlayerPostedSmallBlind pid 12], None, context))"
proof -
  have half: "(posted \<le> big div 2) = (real_of_int posted \<le> real_of_int big / 2)"
    by linarith
  show ?thesis
    by (auto simp add: handle_BlindEvent_def blind_after_first_def blind_classification_def half)
qed

theorem handle_BlindEvent_classification_witness:
  "handle_BlindEvent 0 12 0 blinds_context = ([PlayerPostedSmallBlind 0 12], None, blinds_context)
   \<and> handle_BlindEvent 0 30 0 blinds_context = ([], None, blinds_context)"
  using handle_BlindEvent_classification [of blinds_context 10 25 0 30 0]
  by (simp add: blinds_context_def empty_context_def blind_classification_def)

subsection \<open>Parsing of betting structures\<close>

lemmas parse_defs =
  parse_betting_structure_def betting_structure_re_def opt_lit_def amount_re_def opt_digit_def
  opt_dot_def digits1_def greedy1_def dash_def is_digit_def any1_def LIMIT_MAP_def
  amount_string_to_int_def Decimal_def nat_of_digits_def digit_val_def dec_mul_def dec_fix_def
  dec_to_int_def Decimal_of_int_def prec_def ndigits.simps

text \<open>The structures of \<^verbatim>\<open>TestParseBettingStructure\<close>.\<close>

lemma test_can_parse_limit_ante_structure:
  "parse_betting_structure ''ante-10-20-limit'' =
     Inr \<lparr>limit = FIXED_LIMIT, small_blind = 1000, big_blind = 2000\<rparr>"
  by (simp add: parse_defs)

lemma test_can_no_limit_structure_without_ante:
  "parse_betting_structure ''ante-10-20-no-limit'' =
     Inr \<lparr>limit = NO_LIMIT, small_blind = 1000, big_blind = 2000\<rparr>"
  by (simp add: parse_defs)

lemma test_can_parse_pot_limit_structure_with_ante:
  "parse_betting_structure ''ante-10-20-pot-limit'' =
     Inr \<lparr>limit = POT_LIMIT, small_blind = 1000, big_blind = 2000\<rparr>"
  by (simp add: parse_defs)

lemma test_can_parse_decimal_blind_amounts:
  "parse_betting_structure ''.10-.25-pot-limit'' =
     Inr \<lparr>limit = POT_LIMIT, small_blind = 10, big_blind = 25\<rparr>"
  by (simp add: parse_defs)

text \<open>A decimal amount with one digit before the point is parsed.\<close>

lemma parse_betting_structure_one_digit_decimal:
  "parse_betting_structure ''1.50-3-no-limit'' =
     Inr \<lparr>limit = NO_LIMIT, small_blind = 150, big_blind = 300\<rparr>"
  by (simp add: parse_defs)


text \<open>
  The product is rounded to the 28 significant digits of the decimal context: an amount
  of 29 digits loses its last digit (up to 28 digits only the two zeros of the factor
  are dropped).
\<close>

lemma amount_string_to_int_rounds:
  "amount_string_to_int ''10000000000000000000000000001'' 100 = Inr (10 ^ 30)"
  by (simp add: amount_string_to_int_def Decimal_def nat_of_digits_def digit_val_def dec_mul_def
      dec_fix_def dec_to_int_def Decimal_of_int_def prec_def ndigits.simps is_digit_def)









































subsection \<open>The Showdown event\<close>

lemma convert_player_cards_distinct:
  "\<forall>(pid, cs) \<in> set pcs. conv cs = Inr (f cs) \<Longrightarrow> distinct (map fst pcs) \<Longrightarrow>
   fst ` set acc \<inter> fst ` set pcs = {} \<Longrightarrow>
     convert_player_cards conv pcs acc = Inr (acc @ map (\<lambda>(pid, cs). (pid, f cs)) pcs)"
proof (induction pcs arbitrary: acc)
  case Nil
  then show ?case by simp
next
  case (Cons x xs)
  obtain k v where x: "x = (k, v)" by (cases x)
  from Cons.prems x have notin: "k \<notin> fst ` set acc" by auto
  then have u: "AList.update k (f v) acc = acc @ [(k, f v)]"
    by (induction acc) auto
  from Cons.prems x have "\<forall>(pid, cs) \<in> set xs. conv cs = Inr (f cs)" "distinct (map fst xs)"
    and "fst ` set (acc @ [(k, f v)]) \<inter> fst ` set xs = {}" and "conv v = Inr (f v)"
    by (auto simp add: image_iff)
  from Cons.IH [OF this(1,2,3)] u x this(4) show ?case by simp
qed

lemma map_of_converted:
  "distinct (map fst xs) \<Longrightarrow> (k, v) \<in> set xs \<Longrightarrow>
     map_of (map (\<lambda>(pid, cs). (pid, f cs)) xs) k = Some (f v)"
  by (induction xs) (auto simp add: image_iff)

text \<open>
  Claim C7. When the converter succeeds on the cards of the event (it yields \<open>f cs\<close>
  for the cards \<open>cs\<close> of every player; the keys of the dictionary are distinct), the
  handler of a Showdown event raises nothing and sets the hole-card map of the context
  to the converted cards of every player of the event, whatever their number; it
  yields the single event "showdown" if the event has cards for more than one player,
  and no event otherwise.
\<close>

theorem handle_ShowdownEvent_sets_cards:
  assumes conv: "\<forall>(pid, cs) \<in> set player_cards. pokercards_converter self cs = Inr (f cs)"
    and keys: "distinct (map fst player_cards)"
  shows "\<exists>evs context'. handle_ShowdownEvent self player_cards context = (evs, None, context')
     \<and> context' = context\<lparr>context_player_cards :=
                               Some (map (\<lambda>(pid, cs). (pid, f cs)) player_cards)\<rparr>
     \<and> (\<forall>(pid, cs) \<in> set player_cards. player_cards_of context' pid = Inr (f cs))
     \<and> evs = (if 1 < length player_cards then [Showdown] else [])
     \<and> (Showdown \<in> set evs \<longleftrightarrow> 1 < length player_cards)"
proof -
  let ?pc = "map (\<lambda>(pid, cs). (pid, f cs)) player_cards"
  have c: "convert_player_cards (pokercards_converter self) player_cards [] = Inr ?pc"
    using convert_player_cards_distinct [OF conv keys, of "[]"] by simp
  have look: "\<forall>(pid, cs) \<in> set player_cards. map_of ?pc pid = Some (f cs)"
    using map_of_converted [OF keys] by blast
  show ?thesis using c look by (auto simp add: handle_ShowdownEvent_def player_cards_of_def)
qed

theorem handle_ShowdownEvent_sets_cards_witness:
  "handle_ShowdownEvent identity_generator
       [(0, [Upcard RankAce SuitClubs, Upcard RankAce SuitDiamonds]),
        (1, [Upcard RankKing SuitDiamonds, Upcard RankKing SuitSpades])] empty_context =
     ([Showdown], None,
      empty_context\<lparr>context_player_cards :=
        Some [(0, [Upcard RankAce SuitClubs, Upcard RankAce SuitDiamonds]),
              (1, [Upcard RankKing SuitDiamonds, Upcard RankKing SuitSpades])]\<rparr>)
   \<and> handle_ShowdownEvent identity_generator [(23, [Downcard RankQueen SuitSpades])] empty_context =
     ([], None, empty_context\<lparr>context_player_cards := Some [(23, [Downcard RankQueen SuitSpades])]\<rparr>)"
proof -
  let ?two = "[(0::int, [Upcard RankAce SuitClubs, Upcard RankAce SuitDiamonds]),
               (1, [Upcard RankKing SuitDiamonds, Upcard RankKing SuitSpades])]"
  let ?one = "[(23::int, [Downcard RankQueen SuitSpades])]"
  have c2: "\<forall>(pid, cs) \<in> set ?two. pokercards_converter identity_generator cs = Inr (id cs)"
    and c1: "\<forall>(pid, cs) \<in> set ?one. pokercards_converter identity_generator cs = Inr (id cs)"
    by (simp_all add: identity_generator_def)
  have d2: "distinct (map fst ?two)" and d1: "distinct (map fst ?one)" by simp_all
  from handle_ShowdownEvent_sets_cards [OF c2 d2, of empty_context]
    handle_ShowdownEvent_sets_cards [OF c1 d1, of empty_context]
  show ?thesis by simp
qed

subsection \<open>End of hand: the events of the traversal\<close>

lemma emit_eq: "emit ev r = (es, err, st) \<longleftrightarrow> (\<exists>es'. es = ev # es' \<and> r = (es', err, st))"
  by (cases r) (auto simp add: emit_def)

lemma kinds_disjoint:
  "is_collected e \<or> is_uncalled e \<Longrightarrow> \<not> is_showed e \<and> \<not> is_mucked e \<and> \<not> is_hand_ended e"
  by (cases e) simp_all


lemma collected_is_collected: "is_collected (player_collected_from_pot m i pid a)"
  by (simp add: player_collected_from_pot_def)

lemma show_or_muck_events:
  "show_or_muck context bh ps st = (es, err, st') \<Longrightarrow>
     pots st' = pots st \<and> list_all (\<lambda>e. is_showed e \<or> is_mucked e) es"
proof (induction ps arbitrary: st es err st')
  case Nil
  then show ?case by simp
next
  case (Cons pid rest)
  then show ?case
    by (auto simp add: emit_eq split: option.splits sum.splits bool.splits if_splits)
qed

lemma resolved_pot_events_shape:
  "resolved_pot_events context pot bh (player_collected_from_pot m i) st = (es, err, st') \<Longrightarrow>
     pots st' = pots st
     \<and> list_all (\<lambda>e. is_showed e \<or> is_mucked e \<or> is_collected e) es
     \<and> (bh = None \<longrightarrow> err = None \<and> list_all is_collected es)"
  by (auto simp add: resolved_pot_events_def list_all_iff collected_is_collected
      split: option.splits if_splits prod.splits
      dest!: show_or_muck_events)

lemma stack_step_shape:
  "stack_step context bh m event st = (es, err, st') \<Longrightarrow>
     list_all (\<lambda>e. is_showed e \<or> is_mucked e \<or> is_collected e \<or> is_uncalled e) es
     \<and> (bh = None \<longrightarrow> list_all (\<lambda>e. is_collected e \<or> is_uncalled e) es)
     \<and> (err = None \<longrightarrow>
          (if is_resolve event then \<exists>pot. resolved_pot event = Inr pot \<and> pots st' = pot # pots st
           else pots st' = pots st))
     \<and> (err \<noteq> None \<longrightarrow> pots st' = pots st)"
  apply (simp add: stack_step_def Let_def is_resolve_def
      split: option.splits if_splits sum.splits prod.splits)
  apply (auto simp add: collected_is_collected list_all_iff dest!: resolved_pot_events_shape)
  done

lemma stack_loop_shape:
  "stack_loop context bh m events st = (es, err, st') \<Longrightarrow>
     list_all (\<lambda>e. is_showed e \<or> is_mucked e \<or> is_collected e \<or> is_uncalled e) es
     \<and> (bh = None \<longrightarrow> list_all (\<lambda>e. is_collected e \<or> is_uncalled e) es)
     \<and> (err = None \<longrightarrow>
          map Inr (pots st') = rev (map resolved_pot (filter is_resolve events)) @ map Inr (pots st))"
proof (induction events arbitrary: st es err st')
  case Nil
  then show ?case by simp
next
  case (Cons event rest)
  obtain es1 err1 st1 where step: "stack_step context bh m event st = (es1, err1, st1)"
    by (cases "stack_step context bh m event st") auto
  note s1 = stack_step_shape [OF step]
  show ?case
  proof (cases err1)
    case (Some e)
    with Cons.prems step have "es = es1" "err = Some e" by simp_all
    with s1 show ?thesis by simp
  next
    case None
    obtain es2 err2 st2 where loop: "stack_loop context bh m rest st1 = (es2, err2, st2)"
      by (cases "stack_loop context bh m rest st1") auto
    note s2 = Cons.IH [OF loop]
    from Cons.prems step None loop have eq: "es = es1 @ es2" "err = err2" "st' = st2"
      by simp_all
    show ?thesis
    proof (cases "is_resolve event")
      case True
      with s1 None obtain pot where "resolved_pot event = Inr pot" "pots st1 = pot # pots st"
        by auto
      with s1 s2 eq True show ?thesis by simp
    next
      case False
      with s1 None have "pots st1 = pots st" by simp
      with s1 s2 eq False show ?thesis by simp
    qed
  qed
qed

subsection \<open>End of hand: well-formed stacks are traversed to the end\<close>

lemma show_or_muck_complete:
  "list_all (can_show_or_muck context bh) ps \<Longrightarrow>
     \<exists>es st'. show_or_muck context bh ps st = (es, None, st')"
proof (induction ps arbitrary: st)
  case Nil
  then show ?case by simp
next
  case (Cons pid rest)
  from Cons.prems have rest: "list_all (can_show_or_muck context bh) rest"
    and pid: "can_show_or_muck context bh pid" by simp_all
  from pid obtain hands cs where h: "map_of bh pid = Some hands"
    and c: "player_cards_of context pid = Inr cs"
    and s: "\<exists>b. player_should_show {} pid hands best_high_hand best_low_hand = Inr b"
    by (auto simp add: can_show_or_muck_def split: option.splits sum.splits)
  from s have "\<exists>b. player_should_show (players_that_showed st) pid hands
                      best_high_hand best_low_hand = Inr b"
    by (auto simp add: player_should_show_def)
  then obtain b where b: "player_should_show (players_that_showed st) pid hands
                            best_high_hand best_low_hand = Inr b" ..
  show ?case
  proof (cases b)
    case True
    from Cons.IH [OF rest, of "st\<lparr>players_that_showed := insert pid (players_that_showed st)\<rparr>"]
    show ?thesis using h c b True by (auto simp add: emit_def)
  next
    case False
    from Cons.IH [OF rest, of "st\<lparr>players_that_mucked := insert pid (players_that_mucked st)\<rparr>"]
      Cons.IH [OF rest, of st]
    show ?thesis using h c b False by (auto simp add: emit_def)
  qed
qed

lemma resolved_pot_events_complete:
  assumes a: "case bh of None \<Rightarrow> True
              | Some b \<Rightarrow> b = [] \<or> list_all (can_show_or_muck context b) (eligible_players pot)"
  shows "\<exists>es st'. resolved_pot_events context pot bh f st = (es, None, st')"
proof (cases bh)
  case None
  then show ?thesis by (simp add: resolved_pot_events_def)
next
  case (Some b)
  show ?thesis
  proof (cases "b = []")
    case True
    with Some show ?thesis by (simp add: resolved_pot_events_def)
  next
    case False
    with a Some have "list_all (can_show_or_muck context b) (eligible_players pot)" by simp
    from show_or_muck_complete [OF this, of st] obtain es1 st1
      where "show_or_muck context b (eligible_players pot) st = (es1, None, st1)" by blast
    with Some False show ?thesis by (simp add: resolved_pot_events_def)
  qed
qed

lemma stack_step_complete:
  assumes wf: "well_formed_record context bh event"
  shows "\<exists>es st'. stack_step context bh m event st = (es, None, st')"
proof -
  from wf obtain t where t: "d_type event = Some t"
    by (auto simp add: well_formed_record_def split: option.splits)
  show ?thesis
  proof (cases "t = ''resolve''")
    case True
    with wf t obtain el am sh where k: "d_serials event = Some el" "d_pot event = Some am"
        "d_serial2share event = Some sh"
      and c: "case bh of None \<Rightarrow> True
              | Some b \<Rightarrow> b = [] \<or> list_all (can_show_or_muck context b) el"
      by (auto simp add: well_formed_record_def split: option.splits)
    let ?pot = "\<lparr>pot_amount = am, eligible_players = el, winners = sh\<rparr>"
    from c have "case bh of None \<Rightarrow> True
        | Some b \<Rightarrow> b = [] \<or> list_all (can_show_or_muck context b) (eligible_players ?pot)"
      by (cases bh) simp_all
    from resolved_pot_events_complete [OF this] obtain es1 st1 where
      "resolved_pot_events context ?pot bh
         (player_collected_from_pot m (int (length (pots st)))) st = (es1, None, st1)"
      by blast
    with t True k show ?thesis by (simp add: stack_step_def resolved_pot_def)
  next
    case False
    with wf t show ?thesis
      by (auto simp add: stack_step_def well_formed_record_def split: if_splits)
  qed
qed

lemma stack_loop_complete:
  "list_all (well_formed_record context bh) events \<Longrightarrow>
     \<exists>es st'. stack_loop context bh m events st = (es, None, st')"
proof (induction events arbitrary: st)
  case Nil
  then show ?case by simp
next
  case (Cons event rest)
  then have "well_formed_record context bh event"
    and r: "list_all (well_formed_record context bh) rest"
    by simp_all
  from stack_step_complete [OF this(1)] obtain es1 st1 where
    s: "stack_step context bh m event st = (es1, None, st1)" by blast
  from Cons.IH [OF r] obtain es2 st2 where "stack_loop context bh m rest st1 = (es2, None, st2)"
    by blast
  with s show ?case by simp
qed



subsection \<open>End of hand: showing and mucking\<close>

text \<open>
  The single pot of \<^verbatim>\<open>test_generate_events_from_EndEvent\<close>: both players show, the
  one with the lower ranking too, as the test expects.
\<close>

lemma test_generate_events_from_EndEvent:
  "handle_EndEvent identity_generator [test_state, test_record] showdown_context =
     ([PlayerShowedHand 23 (hole_cards 23) (Some (high_card 694117)) None,
       PlayerShowedHand 22 (hole_cards 22) (Some (high_card 694100)) None,
       PlayerCollectedFromMainPot 23 (PyInt 50),
       HandEnded [\<lparr>pot_amount = 50, eligible_players = [23, 22], winners = [(23, 50)]\<rparr>]
         [(23, 0)]], None, showdown_context)"
  by (simp add: end_defs identity_generator_def empty_dict_def empty_context_def high_card_def
      test_state_def test_record_def showdown_context_def)

text \<open>
  Claim C1, at a hand with two pots: players 21, 22 and 23 are eligible for pot 0,
  players 22 and 23 also for pot 1. All three show at pot 0. At pot 1
  \<^verbatim>\<open>player_should_show\<close> is false for a player who has shown, and the \<^verbatim>\<open>elif\<close> asks
  only whether the player has mucked: players 22 and 23 each get a "mucked" event
  after their "showed" event, where the claim allows one of the two events at most.
\<close>

theorem showed_then_mucked:
  "handle_EndEvent identity_generator [two_pot_state, pot0_record, pot1_record] showdown_context =
     ([PlayerShowedHand 21 (hole_cards 21) (Some (high_card 694023)) None,
       PlayerShowedHand 22 (hole_cards 22) (Some (high_card 694100)) None,
       PlayerShowedHand 23 (hole_cards 23) (Some (high_card 694117)) None,
       PlayerCollectedFromSidePot 23 (PyInt 60) 0,
       PlayerMuckedHand 22 (hole_cards 22) (Some (high_card 694100)) None,
       PlayerMuckedHand 23 (hole_cards 23) (Some (high_card 694117)) None,
       PlayerCollectedFromMainPot 23 (PyInt 40),
       HandEnded [\<lparr>pot_amount = 40, eligible_players = [22, 23], winners = [(23, 40)]\<rparr>,
                  \<lparr>pot_amount = 60, eligible_players = [21, 22, 23], winners = [(23, 60)]\<rparr>]
         [(23, 0)]], None, showdown_context)"
  by (simp add: end_defs identity_generator_def empty_dict_def empty_context_def high_card_def
      two_pot_state_def pot0_record_def pot1_record_def showdown_context_def)

text \<open>
  The step behind it: a player who has shown and has not mucked, and who is eligible
  for a further pot, gets a "mucked" event there.
\<close>

lemma shown_player_is_mucked:
  assumes "pid \<in> players_that_showed st" and "pid \<notin> players_that_mucked st"
    and "map_of bh pid = Some player_hands" and "player_cards_of context pid = Inr cs"
  shows "show_or_muck context bh [pid] st =
     ([PlayerMuckedHand pid cs (high player_hands) (low player_hands)], None,
      st\<lparr>players_that_mucked := insert pid (players_that_mucked st)\<rparr>)"
  using assms by (simp add: player_should_show_def emit_def)

subsection \<open>End of hand: leftover chips\<close>

text \<open>
  Claim C3, at a pot of 51 chips split between players 22 and 23 with one chip left
  over for player 22: the "collected" event of the \<^verbatim>\<open>left_over\<close> record names player
  22, but its amount is the list \<^verbatim>\<open>['chips_left']\<close>, not the value 1 that the record
  has under that key (\<^verbatim>\<open>amount=['chips_left']\<close> where \<^verbatim>\<open>event['chips_left']\<close> was meant).
\<close>

theorem left_over_amount_is_key_list:
  "d_chips_left left_over_record = Some 1 \<and>
   handle_EndEvent identity_generator [split_state, split_record, left_over_record]
       showdown_context =
     ([PlayerShowedHand 22 (hole_cards 22) (Some (high_card 694100)) None,
       PlayerShowedHand 23 (hole_cards 23) (Some (high_card 694100)) None,
       PlayerCollectedFromMainPot 22 (PyInt 25), PlayerCollectedFromMainPot 23 (PyInt 25),
       PlayerCollectedFromSidePot 22 (PyStrList [''chips_left'']) 1,
       HandEnded [\<lparr>pot_amount = 51, eligible_players = [22, 23], winners = [(22, 25), (23, 25)]\<rparr>]
         [(22, 0), (23, 0)]], None, showdown_context)"
  by (simp add: end_defs identity_generator_def empty_dict_def empty_context_def high_card_def
      split_state_def split_record_def left_over_record_def showdown_context_def)

text \<open>
  The step behind it, for every \<^verbatim>\<open>left_over\<close> record that names its recipient: one
  "collected" event for the recipient, tagged by the number of pots resolved so far,
  with the list \<^verbatim>\<open>['chips_left']\<close> as its amount whatever the record holds.
\<close>

lemma left_over_step:
  assumes "d_type event = Some ''left_over''" and "d_serial event = Some pid"
  shows "stack_step context bh m event st =
     ([player_collected_from_pot m (int (length (pots st))) pid (PyStrList [''chips_left''])],
      None, st)"
  using assms by (simp add: stack_step_def)

subsection \<open>End of hand without best hands\<close>

text \<open>
  Claim C4 as stated fails at a hand won by a fold with an uncalled bet: the stack has
  no best hands, and the events are an "uncalled bet returned" event, a "collected"
  event and the "hand ended" event.
\<close>

theorem foldwin_uncalled_counterexample:
  "d_serial2best foldwin_state = None \<and>
   fst (handle_EndEvent identity_generator
          [foldwin_state, uncalled_record, foldwin_record] empty_context) =
     [UncalledBetReturnedToPlayer 23 13, PlayerCollectedFromMainPot 23 (PyInt 24),
      HandEnded [\<lparr>pot_amount = 24, eligible_players = [23], winners = [(23, 24)]\<rparr>] [(23, 0)]]"
  by (simp add: end_defs identity_generator_def empty_dict_def empty_context_def
      foldwin_state_def uncalled_record_def foldwin_record_def)

text \<open>
  Claim C4, amended. For an End event whose leading record has no \<^verbatim>\<open>serial2best\<close>
  key, no "showed" and no "mucked" event is produced; the events are "collected"
  events and "uncalled bet returned" events, followed, when the handler is not stopped
  by a missing key, by one final "hand ended" event; and on a well-formed stack the
  handler is not stopped.
\<close>

theorem handle_EndEvent_without_best_hands:
  assumes "d_serial2best end_state = None"
  shows "\<exists>evs err. handle_EndEvent self (end_state # rest) context = (evs, err, context)
     \<and> list_all (\<lambda>e. \<not> is_showed e \<and> \<not> is_mucked e) evs
     \<and> (err \<noteq> None \<longrightarrow> list_all (\<lambda>e. is_collected e \<or> is_uncalled e) evs)
     \<and> (err = None \<longrightarrow>
          (\<exists>evs' resolved rake. evs = evs' @ [HandEnded resolved rake]
             \<and> list_all (\<lambda>e. is_collected e \<or> is_uncalled e) evs'))
     \<and> (well_formed_stack self context (end_state # rest) \<longrightarrow> err = None)"
proof -
  from assms have bh: "get_best_hands self end_state = Inr None"
    by (simp add: get_best_hands_def)
  show ?thesis
  proof (cases "d_side_pots end_state")
    case None
    with bh show ?thesis by (simp add: handle_EndEvent_def well_formed_stack_def)
  next
    case (Some sp)
    show ?thesis
    proof (cases "d_pots sp")
      case None
      with bh Some show ?thesis by (simp add: handle_EndEvent_def well_formed_stack_def)
    next
      case ps: (Some ps)
      let ?st0 = "\<lparr>pots = [], players_that_showed = {}, players_that_mucked = {}\<rparr>"
      obtain es err st where loop:
        "stack_loop context None (int (length ps) - 1) rest ?st0 = (es, err, st)"
        by (cases "stack_loop context None (int (length ps) - 1) rest ?st0") auto
      from stack_loop_shape [OF loop]
      have only: "list_all (\<lambda>e. is_collected e \<or> is_uncalled e) es"
        by simp
      then have no_show: "list_all (\<lambda>e. \<not> is_showed e \<and> \<not> is_mucked e) es"
        using kinds_disjoint by (fastforce simp add: list_all_iff)
      have wf_loop: "well_formed_stack self context (end_state # rest) \<Longrightarrow> err = None"
      proof -
        assume "well_formed_stack self context (end_state # rest)"
        with bh have "list_all (well_formed_record context None) rest"
          by (simp add: well_formed_stack_def)
        from stack_loop_complete [OF this, of "int (length ps) - 1" ?st0] loop
        show "err = None" by auto
      qed
      show ?thesis
      proof (cases err)
        case (Some e)
        with bh \<open>d_side_pots end_state = Some sp\<close> ps loop only no_show wf_loop
        show ?thesis by (auto simp add: handle_EndEvent_def)
      next
        case None
        show ?thesis
        proof (cases "d_serial2rake end_state")
          case rk: None
          with None bh \<open>d_side_pots end_state = Some sp\<close> ps loop only no_show
          show ?thesis
            by (simp add: handle_EndEvent_def get_player_rake_def well_formed_stack_def)
        next
          case rk: (Some rk)
          with None bh \<open>d_side_pots end_state = Some sp\<close> ps loop only no_show
          show ?thesis by (simp add: handle_EndEvent_def get_player_rake_def)
        qed
      qed
    qed
  qed
qed

theorem handle_EndEvent_without_best_hands_witness:
  "d_serial2best foldwin_state = None
   \<and> well_formed_stack identity_generator empty_context [foldwin_state, foldwin_record]
   \<and> handle_EndEvent identity_generator [foldwin_state, foldwin_record] empty_context =
       ([PlayerCollectedFromMainPot 23 (PyInt 24),
         HandEnded [\<lparr>pot_amount = 24, eligible_players = [23], winners = [(23, 24)]\<rparr>] [(23, 0)]],
        None, empty_context)"
proof -
  have h: "d_serial2best foldwin_state = None" by (simp add: identity_generator_def empty_dict_def empty_context_def
      foldwin_state_def foldwin_record_def)
  have wf: "well_formed_stack identity_generator empty_context [foldwin_state, foldwin_record]"
    by (simp add: well_formed_stack_def well_formed_record_def get_best_hands_def identity_generator_def empty_dict_def empty_context_def
      foldwin_state_def foldwin_record_def)
  from handle_EndEvent_without_best_hands [OF h, of identity_generator "[foldwin_record]" empty_context]
  obtain evs err where
    "handle_EndEvent identity_generator [foldwin_state, foldwin_record] empty_context = (evs, err, empty_context)"
    "well_formed_stack identity_generator empty_context [foldwin_state, foldwin_record] \<longrightarrow> err = None"
    by blast
  with wf have "snd (handle_EndEvent identity_generator [foldwin_state, foldwin_record] empty_context)
      = (None, empty_context)" by simp
  moreover have "fst (handle_EndEvent identity_generator [foldwin_state, foldwin_record] empty_context) =
       [PlayerCollectedFromMainPot 23 (PyInt 24),
         HandEnded [\<lparr>pot_amount = 24, eligible_players = [23], winners = [(23, 24)]\<rparr>] [(23, 0)]]"
    by (simp add: end_defs identity_generator_def empty_dict_def empty_context_def
      foldwin_state_def foldwin_record_def)
  ultimately show ?thesis using h wf by (simp add: prod_eq_iff)
qed




subsection \<open>End of hand: the final event\<close>






subsection \<open>Unrecognized events and errors\<close>









subsection \<open>The handlers on the events of the repository's tests\<close>

lemma test_generate_events_from_GameEvent:
  "handle_GameEvent 1 ''holdem'' ''.10-.25-no-limit'' [0, 1] [(0, 100), (1, 175)]
     (empty_context\<lparr>context_hand_timestamp := Some 1310087430,
        context_player_names := Some [(0, ''Alice''), (1, ''Bob'')]\<rparr>) =
   ([HandStarted 1 1310087430 ''holdem'' \<lparr>limit = NO_LIMIT, small_blind = 10, big_blind = 25\<rparr>
       [\<lparr>player_id = 0, name = ''Alice'', seat_number = 0, chips = 100\<rparr>,
        \<lparr>player_id = 1, name = ''Bob'', seat_number = 1, chips = 175\<rparr>]],
    None,
    empty_context\<lparr>context_hand_timestamp := Some 1310087430,
      context_player_names := Some [(0, ''Alice''), (1, ''Bob'')],
      context_small_blind := Some 10, context_big_blind := Some 25\<rparr>)"
proof -
  have "parse_betting_structure ''.10-.25-no-limit'' =
      Inr \<lparr>limit = NO_LIMIT, small_blind = 10, big_blind = 25\<rparr>"
    by (simp add: parse_defs)
  then show ?thesis
    by (simp add: handle_GameEvent_def empty_context_def)
qed

lemma test_generate_events_from_RoundEvent:
  "handle_RoundEvent identity_generator ''pre-flop'' []
     (Some [(0, [Downcard RankAce SuitClubs, Downcard RankKing SuitClubs]),
            (1, [Downcard RankQueen SuitClubs, Downcard RankQueen SuitDiamonds])]) empty_context =
   ([PreflopRoundStarted,
     CardsDealtToPlayer 0 [Downcard RankAce SuitClubs, Downcard RankKing SuitClubs],
     CardsDealtToPlayer 1 [Downcard RankQueen SuitClubs, Downcard RankQueen SuitDiamonds]],
    None, empty_context)
   \<and> handle_RoundEvent identity_generator ''turn'' [Upcard RankTen SuitDiamonds] (Some [])
        empty_context = ([TurnDealt (Upcard RankTen SuitDiamonds)], None, empty_context)
   \<and> handle_RoundEvent identity_generator ''river'' [] None empty_context =
        ([], Some IndexError, empty_context)"
  by (simp add: handle_RoundEvent_def round_events_def identity_generator_def)

lemma test_generate_events_from_CanceledEvent:
  "handle_CanceledEvent 1 50 empty_context =
     ([HandCanceled, UncalledBetReturnedToPlayer 1 50], None, empty_context)"
  by (simp add: handle_CanceledEvent_def)


end
